theory Spec2Isabelle
  imports Complex_Main "HOL-Library.Sublist"
begin

section \<open>Python strings\<close>

text \<open>
  A Python \<open>str\<close> is a sequence of code points. The model covers the code points below
  256, one \<^typ>\<open>char\<close> each, so that \<^typ>\<open>string\<close> is the type of the tool
  functions' arguments and of the keys of the two module-level tables.

  \<open>str.lower\<close> maps \<open>A\<close>..\<open>Z\<close> and the upper-case letters of the Latin-1 supplement
  (\<open>0xC0\<close>..\<open>0xDE\<close> without the multiplication sign \<open>0xD7\<close>) to the letter 32 code
  points later and leaves every other code point below 256 alone. \<open>str.strip\<close> without
  an argument removes the leading and trailing code points for which \<open>str.isspace\<close>
  holds; below 256 these are the twelve listed in \<open>isspace\<close>.
\<close>

definition lower_char :: "char \<Rightarrow> char" where
  "lower_char c =
     (let n = (of_char c :: nat)
      in if (65 \<le> n \<and> n \<le> 90) \<or> (192 \<le> n \<and> n \<le> 222 \<and> n \<noteq> 215)
         then char_of (n + 32) else c)"

definition lower :: "string \<Rightarrow> string" where
  "lower s = map lower_char s"

definition isspace :: "char \<Rightarrow> bool" where
  "isspace c = ((of_char c :: nat) \<in> set [9, 10, 11, 12, 13, 28, 29, 30, 31, 32, 133, 160])"

definition strip :: "string \<Rightarrow> string" where
  "strip s = rev (dropWhile isspace (rev (dropWhile isspace s)))"

text \<open>\<open>q in s\<close> on two strings: \<open>q\<close> occurs in \<open>s\<close> as a contiguous run.\<close>

fun str_in :: "string \<Rightarrow> string \<Rightarrow> bool" where
  "str_in q [] = (q = [])"
| "str_in q (c # cs) = (prefix q (c # cs) \<or> str_in q cs)"

section \<open>Exceptions, dictionaries, formatted text\<close>

text \<open>
  A call either returns a value (\<open>Inr\<close>) or ends by an exception that nothing in the
  module catches (\<open>Inl\<close>). \<open>bindE\<close> runs the rest of a function body after a step that
  returned.
\<close>

datatype exn = KeyError | NameError | AttributeError | ValueError | ZoneInfoNotFoundError

definition bindE :: "exn + 'a \<Rightarrow> ('a \<Rightarrow> exn + 'b) \<Rightarrow> exn + 'b" where
  "bindE m f = (case m of Inl e \<Rightarrow> Inl e | Inr v \<Rightarrow> f v)"

text \<open>
  A \<open>dict\<close> is an association list in insertion order. \<open>k in d\<close> is \<open>contains\<close>
  and \<open>k not in d\<close> is \<open>not_in\<close>; \<open>d[k]\<close> is \<open>getitem\<close>, which raises \<open>KeyError\<close>
  on an absent key; \<open>d.get(k, v)\<close> is \<open>get_default\<close>.
\<close>

definition contains :: "('k \<times> 'v) list \<Rightarrow> 'k \<Rightarrow> bool" where
  "contains d k = (map_of d k \<noteq> None)"

definition not_in :: "('k \<times> 'v) list \<Rightarrow> 'k \<Rightarrow> bool" where
  "not_in d k = (map_of d k = None)"

definition getitem :: "('k \<times> 'v) list \<Rightarrow> 'k \<Rightarrow> exn + 'v" where
  "getitem d k = (case map_of d k of None \<Rightarrow> Inl KeyError | Some v \<Rightarrow> Inr v)"

definition get_default :: "('k \<times> 'v) list \<Rightarrow> 'k \<Rightarrow> 'v \<Rightarrow> 'v" where
  "get_default d k v = (case map_of d k of None \<Rightarrow> v | Some w \<Rightarrow> w)"

text \<open>
  An aware \<open>datetime\<close>: the instant it was read at, the key of its zone, and its
  \<open>utcoffset()\<close> in seconds.
\<close>

datatype datetime = Datetime (instant: int) (zone_key: string) (utcoffset: int)

text \<open>
  The strings the functions build are f-strings. A formatted string is kept as the list
  of its pieces, in order: literal text, a single character by its code point (the
  characters above 255, the degree sign, the apostrophe and the line feed), and one piece
  for each library routine that renders a value (\<open>str.title\<close>, the decimal form of an
  \<open>int\<close>, the \<open>repr\<close> of a \<open>float\<close>, the format specifications \<open>:,\<close> and \<open>:.nf\<close>,
  \<open>strftime\<close>, \<open>isoformat\<close>, \<open>str\<close> of an exception).
\<close>

datatype piece =
    Lit string
  | Glyph nat
  | Title string
  | Num int
  | Flt real
  | Comma int
  | Fixed nat real
  | Strftime string datetime
  | Isoformat datetime
  | ExcStr exn

type_synonym fstring = "piece list"

text \<open>\<open>sep.join(parts)\<close>.\<close>

fun join :: "fstring \<Rightarrow> fstring list \<Rightarrow> fstring" where
  "join sep [] = []"
| "join sep [p] = p"
| "join sep (p # q # ps) = p @ sep @ join sep (q # ps)"

section \<open>The module-level tables\<close>

record CityInfo =
  name :: string
  country :: string
  timezone :: string
  population :: int
  coordinates :: "real \<times> real"
  currency :: string
  language :: string

definition CITY_DATABASE :: "(string \<times> CityInfo) list" where
  "CITY_DATABASE =
    [(''new york'', \<lparr>name = ''New York'', country = ''United States'',
        timezone = ''America/New_York'', population = 8336817,
        coordinates = (40.7128, -74.0060), currency = ''USD'', language = ''English''\<rparr>),
     (''london'', \<lparr>name = ''London'', country = ''United Kingdom'',
        timezone = ''Europe/London'', population = 9648110,
        coordinates = (51.5074, -0.1278), currency = ''GBP'', language = ''English''\<rparr>),
     (''tokyo'', \<lparr>name = ''Tokyo'', country = ''Japan'',
        timezone = ''Asia/Tokyo'', population = 13960000,
        coordinates = (35.6762, 139.6503), currency = ''JPY'', language = ''Japanese''\<rparr>),
     (''lagos'', \<lparr>name = ''Lagos'', country = ''Nigeria'',
        timezone = ''Africa/Lagos'', population = 15388000,
        coordinates = (6.5244, 3.3792), currency = ''NGN'', language = ''English''\<rparr>),
     (''paris'', \<lparr>name = ''Paris'', country = ''France'',
        timezone = ''Europe/Paris'', population = 2165423,
        coordinates = (48.8566, 2.3522), currency = ''EUR'', language = ''French''\<rparr>),
     (''dubai'', \<lparr>name = ''Dubai'', country = ''UAE'',
        timezone = ''Asia/Dubai'', population = 3331420,
        coordinates = (25.2048, 55.2708), currency = ''AED'', language = ''Arabic''\<rparr>),
     (''sydney'', \<lparr>name = ''Sydney'', country = ''Australia'',
        timezone = ''Australia/Sydney'', population = 5312163,
        coordinates = (-33.8688, 151.2093), currency = ''AUD'', language = ''English''\<rparr>),
     (''mumbai'', \<lparr>name = ''Mumbai'', country = ''India'',
        timezone = ''Asia/Kolkata'', population = 20411274,
        coordinates = (19.0760, 72.8777), currency = ''INR'',
        language = ''Hindi/English''\<rparr>)]"

text \<open>
  The entries of \<open>WEATHER_DATA\<close> are dictionary literals with one fixed set of keys, read
  only by constant keys: they are records here. An alert is a dictionary of four strings.
\<close>

record alert =
  alert_type :: string
  severity :: string
  description :: string
  expires :: string

record weather =
  condition :: string
  temperature_c :: int
  temperature_f :: int
  humidity :: int
  wind_speed :: int
  wind_direction :: string
  pressure :: real
  visibility :: int
  uv_index :: int
  air_quality :: string
  feels_like_c :: int
  feels_like_f :: int
  alerts :: "alert list"

definition WEATHER_DATA :: "(string \<times> weather) list" where
  "WEATHER_DATA =
    [(''new york'', \<lparr>condition = ''sunny'', temperature_c = 25, temperature_f = 77,
        humidity = 60, wind_speed = 15, wind_direction = ''SW'', pressure = 1013.2,
        visibility = 10, uv_index = 6, air_quality = ''Good'', feels_like_c = 27,
        feels_like_f = 81, alerts = []\<rparr>),
     (''london'', \<lparr>condition = ''cloudy'', temperature_c = 18, temperature_f = 64,
        humidity = 75, wind_speed = 10, wind_direction = ''W'', pressure = 1008.5,
        visibility = 8, uv_index = 3, air_quality = ''Moderate'', feels_like_c = 16,
        feels_like_f = 61, alerts = []\<rparr>),
     (''tokyo'', \<lparr>condition = ''partly cloudy'', temperature_c = 28, temperature_f = 82,
        humidity = 65, wind_speed = 8, wind_direction = ''E'', pressure = 1015.1,
        visibility = 12, uv_index = 7, air_quality = ''Good'', feels_like_c = 31,
        feels_like_f = 88, alerts = []\<rparr>),
     (''lagos'', \<lparr>condition = ''thunderstorms'', temperature_c = 26, temperature_f = 79,
        humidity = 94, wind_speed = 5, wind_direction = ''W'', pressure = 1009.8,
        visibility = 5, uv_index = 4, air_quality = ''Moderate'', feels_like_c = 28,
        feels_like_f = 83,
        alerts = [\<lparr>alert_type = ''Thunderstorm'', severity = ''moderate'',
          description = ''Scattered thunderstorms expected'',
          expires = ''2025-06-03T20:00:00''\<rparr>]\<rparr>),
     (''paris'', \<lparr>condition = ''rainy'', temperature_c = 16, temperature_f = 61,
        humidity = 80, wind_speed = 20, wind_direction = ''NW'', pressure = 1005.2,
        visibility = 6, uv_index = 2, air_quality = ''Good'', feels_like_c = 14,
        feels_like_f = 57, alerts = []\<rparr>)]"

text \<open>
  The values a result dictionary holds. \<open>PStr\<close> is a string known character by
  character, \<open>PText\<close> a formatted one. \<open>PObj\<close> stands for an object whose content plays
  no part here (a module, a function, a class, a zone).
\<close>

datatype pyval =
    PNone
  | PInt int
  | PFloat real
  | PStr string
  | PText fstring
  | PWeather weather
  | PCityInfo CityInfo
  | PList "pyval list"
  | PDict "(string \<times> pyval) list"
  | PObj

type_synonym result = "(string \<times> pyval) list"

definition newline :: piece where
  "newline = Glyph 10"

definition apostrophe :: piece where
  "apostrophe = Glyph 39"

definition degree :: piece where
  "degree = Glyph 176"

text \<open>\<open>", ".join([city.title() for city in d.keys()])\<close>.\<close>

definition available_titles :: "(string \<times> 'v) list \<Rightarrow> fstring" where
  "available_titles d = join [Lit '', ''] (map (\<lambda>k. [Title k]) (map fst d))"

section \<open>\<open>get_weather\<close>\<close>

definition weather_report :: "string \<Rightarrow> weather \<Rightarrow> fstring" where
  "weather_report city w =
    [Glyph 0x1F324, Glyph 0xFE0F, Lit '' Weather in '', Title city, Lit '': '',
       Title (condition w), newline,
     Glyph 0x1F321, Glyph 0xFE0F, Lit '' Temperature: '', Num (temperature_c w), degree,
       Lit ''C ('', Num (temperature_f w), degree, Lit ''F)'', newline,
     Glyph 0x1F914, Lit '' Feels like: '', Num (feels_like_c w), degree,
       Lit ''C ('', Num (feels_like_f w), degree, Lit ''F)'', newline,
     Glyph 0x1F4A7, Lit '' Humidity: '', Num (humidity w), Lit ''%'', newline,
     Glyph 0x1F4A8, Lit '' Wind: '', Num (wind_speed w), Lit '' km/h '',
       Lit (wind_direction w)]"

definition weather_details :: "weather \<Rightarrow> fstring" where
  "weather_details w =
    [newline, Glyph 0x1F4CA, Lit '' Pressure: '', Flt (pressure w), Lit '' hPa'', newline,
     Glyph 0x1F441, Glyph 0xFE0F, Lit '' Visibility: '', Num (visibility w), Lit '' km'',
       newline,
     Glyph 0x2600, Glyph 0xFE0F, Lit '' UV Index: '', Num (uv_index w), newline,
     Glyph 0x1F3ED, Lit '' Air Quality: '', Lit (air_quality w)]"

definition alert_line :: "alert \<Rightarrow> fstring" where
  "alert_line a =
    [newline, Glyph 0x2022, Lit '' '', Lit (alert_type a), Lit '' ('', Lit (severity a),
     Lit ''): '', Lit (description a)]"

definition weather_alerts :: "weather \<Rightarrow> fstring" where
  "weather_alerts w =
    (if alerts w \<noteq> []
     then [newline, newline, Glyph 0x26A0, Glyph 0xFE0F, Lit '' Weather Alerts:'']
          @ concat (map alert_line (alerts w))
     else [])"

definition get_weather :: "string \<Rightarrow> bool \<Rightarrow> exn + result" where
  "get_weather city detailed =
    (let city_lower = strip (lower city)
     in if contains WEATHER_DATA city_lower
        then bindE (getitem WEATHER_DATA city_lower) (\<lambda>w.
               Inr [(''status'', PStr ''success''),
                    (''report'', PText (weather_report city w
                        @ (if detailed then weather_details w else [])
                        @ weather_alerts w)),
                    (''raw_data'', if detailed then PWeather w else PNone)])
        else Inr [(''status'', PStr ''error''),
                  (''error_message'', PText
                     ([Lit ''Weather data for '', apostrophe, Lit city, apostrophe,
                       Lit '' not available. Try: ''] @ available_titles WEATHER_DATA
                      @ [Lit ''. Or I can search the web for it.'']))])"

section \<open>\<open>get_current_time\<close>\<close>

text \<open>
  The time zone database of the runtime is a parameter: it gives, for the keys it knows,
  the zone's offset from UTC in seconds at every instant. \<open>ZoneInfo(key)\<close> raises
  \<open>ZoneInfoNotFoundError\<close> for a key it does not know. The instant that a call of
  \<open>datetime.datetime.now\<close> reads from the system clock is a parameter as well.
\<close>

type_synonym tzdata = "string \<Rightarrow> (int \<Rightarrow> int) option"

definition ZoneInfo :: "tzdata \<Rightarrow> string \<Rightarrow> exn + (string \<times> (int \<Rightarrow> int))" where
  "ZoneInfo db key = (case db key of None \<Rightarrow> Inl ZoneInfoNotFoundError | Some z \<Rightarrow> Inr (key, z))"

definition now :: "int \<Rightarrow> string \<times> (int \<Rightarrow> int) \<Rightarrow> datetime" where
  "now t tz = Datetime t (fst tz) (snd tz t)"

definition formats :: "datetime \<Rightarrow> (string \<times> fstring) list" where
  "formats n =
    [(''standard'', [Strftime ''%A, %B %d, %Y at %I:%M:%S %p %Z'' n]),
     (''business'', [Strftime ''%Y-%m-%d %H:%M %Z'' n]),
     (''iso'', [Isoformat n]),
     (''relative'', [Strftime ''%I:%M %p'' n, Lit '' (UTC'', Strftime ''%z'' n, Lit '')''])]"

text \<open>The body of the \<open>try\<close> block, lines 184 to 203.\<close>

definition current_time_body :: "tzdata \<Rightarrow> int \<Rightarrow> string \<Rightarrow> string \<Rightarrow> string \<Rightarrow> exn + result" where
  "current_time_body db t city city_lower format_type =
    bindE (getitem CITY_DATABASE city_lower) (\<lambda>city_info.
    bindE (ZoneInfo db (timezone city_info)) (\<lambda>tz.
      let n = now t tz
      in bindE (getitem (formats n) ''standard'') (\<lambda>standard.
           let formatted_time = get_default (formats n) format_type standard
           in Inr [(''status'', PStr ''success''),
                   (''report'', PText ([Glyph 0x1F550, Lit '' Current time in '', Title city,
                                        Lit '': ''] @ formatted_time)),
                   (''timestamp'', PText [Isoformat n]),
                   (''timezone'', PStr (timezone city_info)),
                   (''utc_offset'', PText [Strftime ''%z'' n])])))"

definition get_current_time :: "tzdata \<Rightarrow> int \<Rightarrow> string \<Rightarrow> string \<Rightarrow> exn + result" where
  "get_current_time db t city format_type =
    (let city_lower = strip (lower city)
     in if not_in CITY_DATABASE city_lower
        then Inr [(''status'', PStr ''error''),
                  (''error_message'', PText
                     ([Lit ''Time zone data for '', apostrophe, Lit city, apostrophe,
                       Lit '' not available. Try: ''] @ available_titles CITY_DATABASE
                      @ [Lit ''. Or I can search the web for it.'']))]
        else (case current_time_body db t city city_lower format_type of
                Inr r \<Rightarrow> Inr r
              | Inl e \<Rightarrow>
                  Inr [(''status'', PStr ''error''),
                       (''error_message'', PText
                          [Lit ''Error getting time for '', Lit city, Lit '': '', ExcStr e])]))"

section \<open>\<open>get_city_info\<close>\<close>

definition city_report :: "CityInfo \<Rightarrow> fstring" where
  "city_report city_info =
    [Glyph 0x1F3D9, Glyph 0xFE0F, Lit '' '', Lit (name city_info), Lit '', '',
       Lit (country city_info), newline,
     Glyph 0x1F465, Lit '' Population: '', Comma (population city_info), newline,
     Glyph 0x1F5FA, Glyph 0xFE0F, Lit '' Coordinates: '',
       Fixed 4 (fst (coordinates city_info)), Lit '', '',
       Fixed 4 (snd (coordinates city_info)), newline,
     Glyph 0x1F4B0, Lit '' Currency: '', Lit (currency city_info), newline,
     Glyph 0x1F5E3, Glyph 0xFE0F, Lit '' Language: '', Lit (language city_info), newline,
     Glyph 0x1F550, Lit '' Timezone: '', Lit (timezone city_info)]"

definition get_city_info :: "string \<Rightarrow> exn + result" where
  "get_city_info city =
    (let city_lower = strip (lower city)
     in if not_in CITY_DATABASE city_lower
        then Inr [(''status'', PStr ''error''),
                  (''error_message'', PText
                     ([Lit ''City information for '', apostrophe, Lit city, apostrophe,
                       Lit '' not available. Try: ''] @ available_titles CITY_DATABASE
                      @ [Lit ''. Or I can search the web for it.'']))]
        else bindE (getitem CITY_DATABASE city_lower) (\<lambda>city_info.
               Inr [(''status'', PStr ''success''),
                    (''report'', PText (city_report city_info)),
                    (''city_data'', PCityInfo city_info)]))"

section \<open>\<open>search_cities_in_database\<close>\<close>

definition matches_query :: "string \<Rightarrow> string \<times> CityInfo \<Rightarrow> bool" where
  "matches_query query_lower item =
    (str_in query_lower (lower (name (snd item)))
     \<or> str_in query_lower (lower (country (snd item)))
     \<or> str_in query_lower (fst item))"

definition match_entry :: "string \<times> CityInfo \<Rightarrow> (string \<times> pyval) list" where
  "match_entry item =
    [(''name'', PStr (name (snd item))),
     (''country'', PStr (country (snd item))),
     (''population'', PInt (population (snd item)))]"

definition match_line :: "string \<times> CityInfo \<Rightarrow> fstring" where
  "match_line item =
    [Glyph 0x2022, Lit '' '', Lit (name (snd item)), Lit '', '', Lit (country (snd item)),
     Lit '' (Pop: '', Comma (population (snd item)), Lit '')'', newline]"

definition search_cities_in_database :: "string \<Rightarrow> exn + result" where
  "search_cities_in_database query =
    (let query_lower = strip (lower query);
         matches = filter (matches_query query_lower) CITY_DATABASE
     in if matches \<noteq> []
        then Inr [(''status'', PStr ''success''),
                  (''report'', PText
                     ([Glyph 0x1F50D, Lit '' Found '', Num (int (length matches)),
                       Lit '' cities in my database matching '', apostrophe, Lit query,
                       apostrophe, Lit '':'', newline, newline]
                      @ concat (map match_line matches))),
                  (''matches'', PList (map (\<lambda>m. PDict (match_entry m)) matches)),
                  (''count'', PInt (int (length matches)))]
        else Inr [(''status'', PStr ''error''),
                  (''error_message'', PText
                     [Lit ''No cities found in my database matching '', apostrophe,
                      Lit query, apostrophe,
                      Lit ''. I can perform a web search if you'', apostrophe,
                      Lit ''d like.''])])"

section \<open>\<open>compare_cities\<close>\<close>

text \<open>\<open>r1["status"] == "error" or r2["status"] == "error"\<close>, the second test only when the
  first is false.\<close>

definition either_error :: "result \<Rightarrow> result \<Rightarrow> exn + bool" where
  "either_error r1 r2 =
    bindE (getitem r1 ''status'') (\<lambda>s1.
      if s1 = PStr ''error'' then Inr True
      else bindE (getitem r2 ''status'') (\<lambda>s2. Inr (s2 = PStr ''error'')))"

definition weather_comparison_report :: "string \<Rightarrow> string \<Rightarrow> weather \<Rightarrow> weather \<Rightarrow> fstring" where
  "weather_comparison_report city1 city2 w1 w2 =
    (let temp_diff = temperature_c w1 - temperature_c w2;
         humidity_diff = humidity w1 - humidity w2
     in [Glyph 0x1F30D, Lit '' Weather Comparison: '', Title city1, Lit '' vs '',
           Title city2, newline, newline,
         Title city1, Lit '': '', Num (temperature_c w1), degree, Lit ''C, '',
           Lit (condition w1), newline,
         Title city2, Lit '': '', Num (temperature_c w2), degree, Lit ''C, '',
           Lit (condition w2), newline, newline,
         Glyph 0x1F321, Glyph 0xFE0F, Lit '' Temperature difference: '',
           Fixed 1 (of_int \<bar>temp_diff\<bar>), degree, Lit ''C '',
         Lit ''('', Lit (if 0 < temp_diff then ''warmer'' else ''cooler''), Lit '' in '',
           Title (if 0 < temp_diff then city1 else city2), Lit '')'', newline,
         Glyph 0x1F4A7, Lit '' Humidity difference: '', Num \<bar>humidity_diff\<bar>, Lit ''% '',
         Lit ''('', Lit (if 0 < humidity_diff then ''higher'' else ''lower''), Lit '' in '',
           Title (if 0 < humidity_diff then city1 else city2), Lit '')''])"

definition compare_weather :: "string \<Rightarrow> string \<Rightarrow> exn + result" where
  "compare_weather city1 city2 =
    bindE (get_weather city1 False) (\<lambda>weather1.
    bindE (get_weather city2 False) (\<lambda>weather2.
    bindE (either_error weather1 weather2) (\<lambda>failed.
      if failed
      then (if not_in WEATHER_DATA (strip (lower city1))
               \<or> not_in WEATHER_DATA (strip (lower city2))
            then Inr [(''status'', PStr ''error''),
                      (''error_message'', PText
                         [Lit ''Weather data missing for one or both cities. I can try a web search for current weather if you'',
                          apostrophe, Lit ''d like.''])]
            else Inr [(''status'', PStr ''error''),
                      (''error_message'', PText
                         [Lit ''Cannot compare - one or both cities have no weather data''])])
      else bindE (getitem WEATHER_DATA (lower city1)) (\<lambda>w1.
           bindE (getitem WEATHER_DATA (lower city2)) (\<lambda>w2.
             Inr [(''status'', PStr ''success''),
                  (''report'', PText (weather_comparison_report city1 city2 w1 w2))])))))"

text \<open>
  The clock is read at several places of one call. \<open>clock k\<close> is the instant that the
  \<open>k\<close>-th of these places reads, counted from 0 in the order of evaluation. In the time
  comparison the two calls of \<open>get_current_time\<close> are places 0 and 1, and \<open>now1\<close> and
  \<open>now2\<close> are places 2 and 3.
\<close>

definition time_comparison_report :: "string \<Rightarrow> string \<Rightarrow> datetime \<Rightarrow> datetime \<Rightarrow> fstring" where
  "time_comparison_report city1 city2 now1 now2 =
    (let diff = real_of_int (utcoffset now1 - utcoffset now2) / 3600
     in [Glyph 0x1F550, Lit '' Time Comparison: '', Title city1, Lit '' vs '', Title city2,
           newline, newline,
         Title city1, Lit '': '', Strftime ''%I:%M %p %Z'' now1, newline,
         Title city2, Lit '': '', Strftime ''%I:%M %p %Z'' now2, newline, newline,
         Glyph 0x23F0, Lit '' Time difference: '', Fixed 0 \<bar>diff\<bar>, Lit '' hours '',
         Lit ''('', Title (if 0 < diff then city1 else city2), Lit '' is ahead)''])"

definition compare_time :: "tzdata \<Rightarrow> (nat \<Rightarrow> int) \<Rightarrow> string \<Rightarrow> string \<Rightarrow> exn + result" where
  "compare_time db clock city1 city2 =
    bindE (get_current_time db (clock 0) city1 ''standard'') (\<lambda>time1.
    bindE (get_current_time db (clock 1) city2 ''standard'') (\<lambda>time2.
    bindE (either_error time1 time2) (\<lambda>failed.
      if failed
      then (if not_in CITY_DATABASE (strip (lower city1))
               \<or> not_in CITY_DATABASE (strip (lower city2))
            then Inr [(''status'', PStr ''error''),
                      (''error_message'', PText
                         [Lit ''Timezone data unavailable for one or both cities in my database. I can search the web for current times.''])]
            else Inr [(''status'', PStr ''error''),
                      (''error_message'', PText
                         [Lit ''Cannot compare - timezone data unavailable for one or both cities''])])
      else bindE (getitem CITY_DATABASE (lower city1)) (\<lambda>info1.
           bindE (ZoneInfo db (timezone info1)) (\<lambda>tz1.
           bindE (getitem CITY_DATABASE (lower city2)) (\<lambda>info2.
           bindE (ZoneInfo db (timezone info2)) (\<lambda>tz2.
             let now1 = now (clock 2) tz1; now2 = now (clock 3) tz2
             in Inr [(''status'', PStr ''success''),
                     (''report'', PText (time_comparison_report city1 city2 now1 now2))])))))))"

definition compare_info :: "string \<Rightarrow> string \<Rightarrow> exn + result" where
  "compare_info city1 city2 =
    bindE (get_city_info city1) (\<lambda>info1.
    bindE (get_city_info city2) (\<lambda>info2.
    bindE (either_error info1 info2) (\<lambda>failed.
      if failed
      then Inr [(''status'', PStr ''error''),
                (''error_message'', PText
                   [Lit ''City info missing for comparison. I can try searching the web for '',
                    Lit city1, Lit '' or '', Lit city2,
                    Lit '' if they are not in my database.''])]
      else Inr [(''status'', PStr ''error''),
                (''error_message'', PText
                   [Lit ''Invalid comparison type or not fully implemented for '', apostrophe,
                    Lit ''info'', apostrophe, Lit ''. Use '', apostrophe, Lit ''weather'',
                    apostrophe, Lit '' or '', apostrophe, Lit ''time'', apostrophe,
                    Lit '', or I can search for general info on both.''])])))"

definition compare_cities :: "tzdata \<Rightarrow> (nat \<Rightarrow> int) \<Rightarrow> string \<Rightarrow> string \<Rightarrow> string \<Rightarrow> exn + result" where
  "compare_cities db clock city1 city2 comparison_type =
    (if comparison_type = ''weather'' then compare_weather city1 city2
     else if comparison_type = ''time'' then compare_time db clock city1 city2
     else compare_info city1 city2)"

section \<open>\<open>get_travel_info\<close>\<close>

text \<open>
  A Python \<open>float\<close> is a real number here: the arithmetic is exact, rounding is not
  modelled. \<open>math.sqrt\<close> raises \<open>ValueError\<close> on a negative argument and \<open>math.asin\<close>
  outside \<open>[-1, 1]\<close>; \<open>math.sin\<close>, \<open>math.cos\<close> and \<open>math.radians\<close> return on every
  finite argument.
\<close>

definition radians :: "real \<Rightarrow> real" where
  "radians x = x * (pi / 180)"

definition math_sqrt :: "real \<Rightarrow> exn + real" where
  "math_sqrt x = (if x < 0 then Inl ValueError else Inr (sqrt x))"

definition math_asin :: "real \<Rightarrow> exn + real" where
  "math_asin x = (if x < - 1 \<or> 1 < x then Inl ValueError else Inr (arcsin x))"

text \<open>Lines 442 to 448: the value of the local \<open>a\<close>.\<close>

definition haversine_a :: "real \<times> real \<Rightarrow> real \<times> real \<Rightarrow> real" where
  "haversine_a origin_coordinates dest_coordinates =
    (let lat1 = radians (fst origin_coordinates); lon1 = radians (snd origin_coordinates);
         lat2 = radians (fst dest_coordinates); lon2 = radians (snd dest_coordinates);
         dlat = lat2 - lat1;
         dlon = lon2 - lon1
     in (sin (dlat / 2))\<^sup>2 + cos lat1 * cos lat2 * (sin (dlon / 2))\<^sup>2)"

text \<open>
  Line 449: \<open>c = 2 * math.asin(math.sqrt(a))\<close>, on exact reals. The domain errors
  are those of exact arithmetic: a \<open>float\<close> square root is rounded, so for a \<open>float\<close>
  next to 1 the code and this definition can differ. They agree on every value that
  \<open>haversine_a\<close> takes, which lies in \<open>[0, 1]\<close> in exact arithmetic.
\<close>

definition central_angle :: "real \<Rightarrow> exn + real" where
  "central_angle a = bindE (math_sqrt a) (\<lambda>root. bindE (math_asin root) (\<lambda>angle. Inr (2 * angle)))"

text \<open>Lines 442 to 450: the value of the local \<open>distance_km\<close>.\<close>

definition distance_km :: "real \<times> real \<Rightarrow> real \<times> real \<Rightarrow> exn + real" where
  "distance_km origin_coordinates dest_coordinates =
    bindE (central_angle (haversine_a origin_coordinates dest_coordinates)) (\<lambda>c. Inr (6371 * c))"

text \<open>Lines 453 to 458: the value of the local \<open>time_diff\<close>; the two clock readings are
  places 0 and 1.\<close>

definition time_difference :: "tzdata \<Rightarrow> (nat \<Rightarrow> int) \<Rightarrow> CityInfo \<Rightarrow> CityInfo \<Rightarrow> exn + real" where
  "time_difference db clock origin_info dest_info =
    bindE (ZoneInfo db (timezone origin_info)) (\<lambda>origin_tz.
    bindE (ZoneInfo db (timezone dest_info)) (\<lambda>dest_tz.
      let now_origin = now (clock 0) origin_tz; now_dest = now (clock 1) dest_tz
      in Inr (real_of_int (utcoffset now_dest - utcoffset now_origin) / 3600)))"

text \<open>
  Reading a name looks in the frame of the function, then among the names of the module,
  then among the builtins, and raises \<open>NameError\<close> when none of them binds it.
  \<open>module_names\<close> are the names that the module's top-level statements bind, and
  \<open>builtin_names\<close> those of the \<open>builtins\<close> module.
\<close>

definition module_names :: "string list" where
  "module_names =
    [''datetime'', ''json'', ''ZoneInfo'', ''Dict'', ''List'', ''Optional'', ''Union'',
     ''dataclass'', ''Agent'', ''google_search'', ''AgentTool'', ''Runner'',
     ''InMemorySessionService'', ''types'', ''WeatherAlert'', ''CityInfo'',
     ''CITY_DATABASE'', ''WEATHER_DATA'', ''get_weather'', ''get_current_time'',
     ''get_city_info'', ''compare_cities'', ''get_weather_forecast'',
     ''search_cities_in_database'', ''get_travel_info'', ''custom_functions_agent'',
     ''search_agent'', ''root_agent'', ''APP_NAME'', ''USER_ID'', ''SESSION_ID'',
     ''setup_and_run_agent'', ''call_agent'', ''runner'', ''session_service'',
     ''__name__'', ''__doc__'', ''__package__'', ''__loader__'', ''__spec__'',
     ''__file__'', ''__cached__'', ''__builtins__'', ''__annotations__'']"

definition builtin_names :: "string list" where
  "builtin_names =
    [''ArithmeticError'', ''AssertionError'', ''AttributeError'', ''BaseException'',
     ''BaseExceptionGroup'', ''BlockingIOError'', ''BrokenPipeError'', ''BufferError'',
     ''BytesWarning'', ''ChildProcessError'', ''ConnectionAbortedError'',
     ''ConnectionError'', ''ConnectionRefusedError'', ''ConnectionResetError'',
     ''DeprecationWarning'', ''EOFError'', ''Ellipsis'', ''EncodingWarning'',
     ''EnvironmentError'', ''Exception'', ''ExceptionGroup'', ''False'',
     ''FileExistsError'', ''FileNotFoundError'', ''FloatingPointError'', ''FutureWarning'',
     ''GeneratorExit'', ''IOError'', ''ImportError'', ''ImportWarning'',
     ''IndentationError'', ''IndexError'', ''InterruptedError'', ''IsADirectoryError'',
     ''KeyError'', ''KeyboardInterrupt'', ''LookupError'', ''MemoryError'',
     ''ModuleNotFoundError'', ''NameError'', ''None'', ''NotADirectoryError'',
     ''NotImplemented'', ''NotImplementedError'', ''OSError'', ''OverflowError'',
     ''PendingDeprecationWarning'', ''PermissionError'', ''ProcessLookupError'',
     ''RecursionError'', ''ReferenceError'', ''ResourceWarning'', ''RuntimeError'',
     ''RuntimeWarning'', ''StopAsyncIteration'', ''StopIteration'', ''SyntaxError'',
     ''SyntaxWarning'', ''SystemError'', ''SystemExit'', ''TabError'', ''TimeoutError'',
     ''True'', ''TypeError'', ''UnboundLocalError'', ''UnicodeDecodeError'',
     ''UnicodeEncodeError'', ''UnicodeError'', ''UnicodeTranslateError'',
     ''UnicodeWarning'', ''UserWarning'', ''ValueError'', ''Warning'',
     ''ZeroDivisionError'', ''__build_class__'', ''__debug__'', ''__doc__'',
     ''__import__'', ''__loader__'', ''__name__'', ''__package__'', ''__spec__'', ''abs'',
     ''aiter'', ''all'', ''anext'', ''any'', ''ascii'', ''bin'', ''bool'', ''breakpoint'',
     ''bytearray'', ''bytes'', ''callable'', ''chr'', ''classmethod'', ''compile'',
     ''complex'', ''copyright'', ''credits'', ''delattr'', ''dict'', ''dir'', ''divmod'',
     ''enumerate'', ''eval'', ''exec'', ''exit'', ''filter'', ''float'', ''format'',
     ''frozenset'', ''getattr'', ''globals'', ''hasattr'', ''hash'', ''help'', ''hex'',
     ''id'', ''input'', ''int'', ''isinstance'', ''issubclass'', ''iter'', ''len'',
     ''license'', ''list'', ''locals'', ''map'', ''max'', ''memoryview'', ''min'',
     ''next'', ''object'', ''oct'', ''open'', ''ord'', ''pow'', ''print'', ''property'',
     ''quit'', ''range'', ''repr'', ''reversed'', ''round'', ''set'', ''setattr'',
     ''slice'', ''sorted'', ''staticmethod'', ''str'', ''sum'', ''super'', ''tuple'',
     ''type'', ''vars'', ''zip'']"

definition load_name :: "(string \<times> pyval) list \<Rightarrow> string \<Rightarrow> exn + pyval" where
  "load_name frame n =
    (case map_of frame n of
       Some v \<Rightarrow> Inr v
     | None \<Rightarrow> if n \<in> set module_names \<or> n \<in> set builtin_names then Inr PObj
               else Inl NameError)"

text \<open>\<open>v.title()\<close>: a method of strings.\<close>

definition title :: "pyval \<Rightarrow> exn + fstring" where
  "title v = (case v of PStr s \<Rightarrow> Inr [Title s] | _ \<Rightarrow> Inl AttributeError)"

text \<open>
  The frame of \<open>get_travel_info\<close> when line 460 is reached: its two parameters and the
  locals bound by lines 427 to 458. Only the strings are read through the frame.
\<close>

definition travel_frame :: "string \<Rightarrow> string \<Rightarrow> string \<Rightarrow> string \<Rightarrow> (string \<times> pyval) list" where
  "travel_frame origin destination origin_lower dest_lower =
    [(''origin'', PStr origin), (''destination'', PStr destination),
     (''origin_lower'', PStr origin_lower), (''dest_lower'', PStr dest_lower),
     (''origin_info'', PObj), (''dest_info'', PObj), (''math'', PObj),
     (''lat1'', PObj), (''lon1'', PObj), (''lat2'', PObj), (''lon2'', PObj),
     (''dlat'', PObj), (''dlon'', PObj), (''a'', PObj), (''c'', PObj),
     (''distance_km'', PObj), (''origin_tz'', PObj), (''dest_tz'', PObj),
     (''now_origin'', PObj), (''now_dest'', PObj), (''time_diff'', PObj)]"

text \<open>
  Lines 460 to 467. The fields of an f-string are evaluated from left to right:
  \<open>origin.title()\<close>, then \<open>dest.title()\<close>, then the others, \<open>dest.title()\<close> once more
  among them.
\<close>

definition travel_report ::
  "(string \<times> pyval) list \<Rightarrow> CityInfo \<Rightarrow> CityInfo \<Rightarrow> real \<Rightarrow> real \<Rightarrow> exn + fstring" where
  "travel_report frame origin_info dest_info distance time_diff =
    bindE (bindE (load_name frame ''origin'') title) (\<lambda>origin_title.
    bindE (bindE (load_name frame ''dest'') title) (\<lambda>dest_title.
    bindE (bindE (load_name frame ''dest'') title) (\<lambda>dest_title2.
      Inr ([Glyph 0x2708, Glyph 0xFE0F, Lit '' Travel Info: ''] @ origin_title
           @ [Lit '' '', Glyph 0x2192, Lit '' ''] @ dest_title @ [newline, newline,
              Glyph 0x1F4CF, Lit '' Distance: ~'', Fixed 0 distance, Lit '' km ('',
              Fixed 0 (distance * 0.621371), Lit '' miles)'', newline,
              Glyph 0x1F550, Lit '' Time difference: '', Fixed 0 \<bar>time_diff\<bar>,
              Lit '' hours '',
              Lit ''('', Lit (if 0 < time_diff then ''ahead'' else ''behind''), Lit '' in '']
           @ dest_title2 @ [Lit '')'', newline,
              Glyph 0x1F4B1, Lit '' Currency: '', Lit (currency origin_info), Lit '' '',
              Glyph 0x2192, Lit '' '', Lit (currency dest_info), newline,
              Glyph 0x1F5E3, Glyph 0xFE0F, Lit '' Language: '', Lit (language origin_info),
              Lit '' '', Glyph 0x2192, Lit '' '', Lit (language dest_info)]))))"

text \<open>\<open>round(x)\<close> of a \<open>float\<close>: the nearest integer, the even one of two equally near.\<close>

definition py_round :: "real \<Rightarrow> int" where
  "py_round x =
    (let f = \<lfloor>x\<rfloor>; d = x - of_int f
     in if d < 1 / 2 then f else if 1 / 2 < d then f + 1 else if even f then f else f + 1)"

definition travel_not_found :: result where
  "travel_not_found =
    [(''status'', PStr ''error''),
     (''error_message'', PText
        [Lit ''Travel info requires both cities to be in our database. I can try a web search for information about these cities.''])]"

definition get_travel_info :: "tzdata \<Rightarrow> (nat \<Rightarrow> int) \<Rightarrow> string \<Rightarrow> string \<Rightarrow> exn + result" where
  "get_travel_info db clock origin destination =
    (let origin_lower = strip (lower origin);
         dest_lower = strip (lower destination)
     in if not_in CITY_DATABASE origin_lower \<or> not_in CITY_DATABASE dest_lower
        then Inr travel_not_found
        else bindE (getitem CITY_DATABASE origin_lower) (\<lambda>origin_info.
             bindE (getitem CITY_DATABASE dest_lower) (\<lambda>dest_info.
             bindE (distance_km (coordinates origin_info) (coordinates dest_info)) (\<lambda>distance.
             bindE (time_difference db clock origin_info dest_info) (\<lambda>time_diff.
             bindE (travel_report (travel_frame origin destination origin_lower dest_lower)
                      origin_info dest_info distance time_diff) (\<lambda>report.
               Inr [(''status'', PStr ''success''),
                    (''report'', PText report),
                    (''distance_km'', PInt (py_round distance)),
                    (''time_difference_hours'', PFloat time_diff)]))))))"

section \<open>Reference definitions\<close>

text \<open>
  The great-circle distance in the words of the specification: both pairs of degrees
  are converted to radians, \<open>dlat\<close> and \<open>dlon\<close> are the differences,
  \<open>h = sin\<^sup>2(dlat/2) + cos(lat1) cos(lat2) sin\<^sup>2(dlon/2)\<close>, the central angle is
  \<open>c = 2 asin(\<surd>h)\<close> and the distance is \<open>6371 c\<close>.
\<close>

definition spec_great_circle_km :: "real \<Rightarrow> real \<Rightarrow> real \<Rightarrow> real \<Rightarrow> real" where
  "spec_great_circle_km lat1_deg lon1_deg lat2_deg lon2_deg =
    (let lat1 = lat1_deg * pi / 180; lon1 = lon1_deg * pi / 180;
         lat2 = lat2_deg * pi / 180; lon2 = lon2_deg * pi / 180;
         dlat = lat2 - lat1;
         dlon = lon2 - lon1;
         h = (sin (dlat / 2))\<^sup>2 + cos lat1 * cos lat2 * (sin (dlon / 2))\<^sup>2;
         c = 2 * arcsin (sqrt h)
     in 6371 * c)"

text \<open>
  A time zone database for the examples: it knows two keys, and at every instant London
  is at UTC and Tokyo nine hours ahead of it, as on a winter day.
\<close>

definition winter_offsets :: tzdata where
  "winter_offsets key =
    (if key = ''Europe/London'' then Some (\<lambda>t. 0)
     else if key = ''Asia/Tokyo'' then Some (\<lambda>t. 32400)
     else None)"

section \<open>Basic facts\<close>

lemma bindE_simps [simp]: "bindE (Inl e) f = Inl e" "bindE (Inr v) f = f v"
  by (simp_all add: bindE_def)

lemma getitem_Some: "map_of d k = Some v \<Longrightarrow> getitem d k = Inr v"
  by (simp add: getitem_def)

lemma getitem_None: "map_of d k = None \<Longrightarrow> getitem d k = Inl KeyError"
  by (simp add: getitem_def)

text \<open>The normal forms of the names that the examples use.\<close>

lemma norm_london:
  "strip (lower '' London '') = ''london''"
  "strip (lower ''LONDON'') = ''london''"
  "strip (lower ''london'') = ''london''"
  by code_simp+

lemma norm_spaced:
  "strip '' london '' = ''london''"
  "lower '' london '' = '' london ''"
  "strip ''paris'' = ''paris''"
  "lower ''paris'' = ''paris''"
  by code_simp+

lemma norm_more:
  "strip (lower ''paris'') = ''paris''"
  "strip (lower ''tokyo'') = ''tokyo''"
  by code_simp+

lemma city_london:
  "map_of CITY_DATABASE ''london'' =
     Some \<lparr>name = ''London'', country = ''United Kingdom'', timezone = ''Europe/London'',
           population = 9648110, coordinates = (51.5074, -0.1278), currency = ''GBP'',
           language = ''English''\<rparr>"
  by (simp add: CITY_DATABASE_def)

lemma city_paris:
  "map_of CITY_DATABASE ''paris'' =
     Some \<lparr>name = ''Paris'', country = ''France'', timezone = ''Europe/Paris'',
           population = 2165423, coordinates = (48.8566, 2.3522), currency = ''EUR'',
           language = ''French''\<rparr>"
  by (simp add: CITY_DATABASE_def)

lemma city_tokyo:
  "map_of CITY_DATABASE ''tokyo'' =
     Some \<lparr>name = ''Tokyo'', country = ''Japan'', timezone = ''Asia/Tokyo'',
           population = 13960000, coordinates = (35.6762, 139.6503), currency = ''JPY'',
           language = ''Japanese''\<rparr>"
  by (simp add: CITY_DATABASE_def)

lemma weather_london:
  "map_of WEATHER_DATA ''london'' =
     Some \<lparr>condition = ''cloudy'', temperature_c = 18, temperature_f = 64, humidity = 75,
           wind_speed = 10, wind_direction = ''W'', pressure = 1008.5, visibility = 8,
           uv_index = 3, air_quality = ''Moderate'', feels_like_c = 16, feels_like_f = 61,
           alerts = []\<rparr>"
  by (simp add: WEATHER_DATA_def)

lemma weather_paris: "map_of WEATHER_DATA ''paris'' \<noteq> None"
  by (simp add: WEATHER_DATA_def)

lemma weather_spaced: "map_of WEATHER_DATA '' london '' = None"
  by (simp add: WEATHER_DATA_def)

section \<open>Lookup\<close>

lemma get_weather_cases:
  "get_weather city detailed =
     (case map_of WEATHER_DATA (strip (lower city)) of
        Some w \<Rightarrow>
          Inr [(''status'', PStr ''success''),
               (''report'', PText (weather_report city w
                   @ (if detailed then weather_details w else []) @ weather_alerts w)),
               (''raw_data'', if detailed then PWeather w else PNone)]
      | None \<Rightarrow>
          Inr [(''status'', PStr ''error''),
               (''error_message'', PText
                  ([Lit ''Weather data for '', apostrophe, Lit city, apostrophe,
                    Lit '' not available. Try: ''] @ available_titles WEATHER_DATA
                   @ [Lit ''. Or I can search the web for it.'']))])"
  by (simp add: get_weather_def Let_def contains_def getitem_def split: option.splits)

lemma get_city_info_cases:
  "get_city_info city =
     (case map_of CITY_DATABASE (strip (lower city)) of
        Some city_info \<Rightarrow>
          Inr [(''status'', PStr ''success''),
               (''report'', PText (city_report city_info)),
               (''city_data'', PCityInfo city_info)]
      | None \<Rightarrow>
          Inr [(''status'', PStr ''error''),
               (''error_message'', PText
                  ([Lit ''City information for '', apostrophe, Lit city, apostrophe,
                    Lit '' not available. Try: ''] @ available_titles CITY_DATABASE
                   @ [Lit ''. Or I can search the web for it.'']))])"
  by (simp add: get_city_info_def Let_def not_in_def getitem_def split: option.splits)

text \<open>
  Claim C8. Lookup is insensitive to case and to surrounding whitespace: the name is
  lower-cased and trimmed, then compared exactly with the stored keys. \<open>get_city_info\<close>
  therefore returns one and the same result for \<open>" London "\<close>, \<open>"LONDON"\<close> and
  \<open>"london"\<close>, the record of London; for a name whose normal form is no key it returns
  the error dictionary and raises nothing. \<open>get_weather\<close> looks its table up in the same
  way and returns on every name. The stored keys are distinct and in normal form.
\<close>

theorem lookup_normalized:
  "get_city_info city =
     (case map_of CITY_DATABASE (strip (lower city)) of
        Some city_info \<Rightarrow>
          Inr [(''status'', PStr ''success''),
               (''report'', PText (city_report city_info)),
               (''city_data'', PCityInfo city_info)]
      | None \<Rightarrow>
          Inr [(''status'', PStr ''error''),
               (''error_message'', PText
                  ([Lit ''City information for '', apostrophe, Lit city, apostrophe,
                    Lit '' not available. Try: ''] @ available_titles CITY_DATABASE
                   @ [Lit ''. Or I can search the web for it.'']))])
   \<and> get_city_info '' London '' = get_city_info ''london''
   \<and> get_city_info ''LONDON'' = get_city_info ''london''
   \<and> (\<exists>r. get_city_info ''london'' = Inr r
          \<and> getitem r ''status'' = Inr (PStr ''success'')
          \<and> getitem r ''city_data'' = Inr (PCityInfo
               \<lparr>name = ''London'', country = ''United Kingdom'',
                timezone = ''Europe/London'', population = 9648110,
                coordinates = (51.5074, -0.1278), currency = ''GBP'',
                language = ''English''\<rparr>))
   \<and> (\<exists>r. get_weather city detailed = Inr r
          \<and> getitem r ''status'' = Inr (PStr
               (if contains WEATHER_DATA (strip (lower city)) then ''success'' else ''error'')))
   \<and> list_all (\<lambda>k. strip (lower k) = k) (map fst CITY_DATABASE)
   \<and> distinct (map fst CITY_DATABASE)"
proof -
  have keys: "list_all (\<lambda>k. strip (lower k) = k) (map fst CITY_DATABASE)"
    by code_simp
  have dist: "distinct (map fst CITY_DATABASE)"
    by (simp add: CITY_DATABASE_def)
  have same: "get_city_info '' London '' = get_city_info ''london''"
    "get_city_info ''LONDON'' = get_city_info ''london''"
    by (simp_all add: get_city_info_cases norm_london city_london)
  have london: "\<exists>r. get_city_info ''london'' = Inr r
          \<and> getitem r ''status'' = Inr (PStr ''success'')
          \<and> getitem r ''city_data'' = Inr (PCityInfo
               \<lparr>name = ''London'', country = ''United Kingdom'',
                timezone = ''Europe/London'', population = 9648110,
                coordinates = (51.5074, -0.1278), currency = ''GBP'',
                language = ''English''\<rparr>)"
    by (simp add: get_city_info_cases norm_london city_london getitem_def)
  have weather: "\<exists>r. get_weather city detailed = Inr r
          \<and> getitem r ''status'' = Inr (PStr
               (if contains WEATHER_DATA (strip (lower city)) then ''success'' else ''error''))"
    by (simp add: get_weather_cases contains_def getitem_def split: option.splits)
  show ?thesis
    using get_city_info_cases [of city] keys dist same london weather by blast
qed

section \<open>Search\<close>

text \<open>
  Claim C2, as the specification states it, fails: for the query \<open>"zzzznotacity"\<close>, which
  matches no record, the search does not return an empty sequence as a success. It
  returns the dictionary with status \<open>"error"\<close> and a message, without a \<open>"matches"\<close>
  entry.
\<close>

theorem search_no_match_counterexample:
  "search_cities_in_database ''zzzznotacity'' =
     Inr [(''status'', PStr ''error''),
          (''error_message'', PText
             [Lit ''No cities found in my database matching '', apostrophe,
              Lit ''zzzznotacity'', apostrophe,
              Lit ''. I can perform a web search if you'', apostrophe, Lit ''d like.''])]"
proof -
  have "filter (matches_query (strip (lower ''zzzznotacity''))) CITY_DATABASE = []"
    by code_simp
  then show ?thesis
    by (simp add: search_cities_in_database_def)
qed

text \<open>
  Claim C2, amended. For every query whose lower-cased and trimmed form occurs in no
  record's key, lower-cased name or lower-cased country, the search returns, without
  raising, the dictionary with status \<open>"error"\<close> and the message that names the query.
\<close>

theorem search_no_match_is_error:
  assumes "list_all (\<lambda>item. \<not> matches_query (strip (lower query)) item) CITY_DATABASE"
  shows "search_cities_in_database query =
     Inr [(''status'', PStr ''error''),
          (''error_message'', PText
             [Lit ''No cities found in my database matching '', apostrophe,
              Lit query, apostrophe,
              Lit ''. I can perform a web search if you'', apostrophe, Lit ''d like.''])]"
proof -
  from assms have "filter (matches_query (strip (lower query))) CITY_DATABASE = []"
    by (simp add: list_all_iff filter_empty_conv)
  then show ?thesis
    by (simp add: search_cities_in_database_def)
qed

theorem search_no_match_is_error_witness:
  "list_all (\<lambda>item. \<not> matches_query (strip (lower ''Atlantis '')) item) CITY_DATABASE
   \<and> search_cities_in_database ''Atlantis '' =
     Inr [(''status'', PStr ''error''),
          (''error_message'', PText
             [Lit ''No cities found in my database matching '', apostrophe,
              Lit ''Atlantis '', apostrophe,
              Lit ''. I can perform a web search if you'', apostrophe, Lit ''d like.''])]"
proof -
  have h: "list_all (\<lambda>item. \<not> matches_query (strip (lower ''Atlantis '')) item) CITY_DATABASE"
    by code_simp
  from search_no_match_is_error [OF h] h show ?thesis
    by simp
qed

section \<open>Weather comparison\<close>

text \<open>
  Claim C9. In the weather comparison the membership test, made inside \<open>get_weather\<close>,
  lower-cases and trims the name, while the table is then indexed by the name
  lower-cased only. For the name \<open>" london "\<close> the test passes, \<open>get_weather\<close> reports
  success, and the index raises \<open>KeyError\<close>: the comparison returns no dictionary.
\<close>

theorem compare_cities_whitespace_KeyError:
  "(\<exists>r. get_weather '' london '' False = Inr r
        \<and> getitem r ''status'' = Inr (PStr ''success''))
   \<and> contains WEATHER_DATA (strip (lower '' london ''))
   \<and> getitem WEATHER_DATA (lower '' london '') = Inl KeyError
   \<and> compare_cities db clock '' london '' ''paris'' ''weather'' = Inl KeyError"
proof -
  obtain r1 where r1: "get_weather '' london '' False = Inr r1"
    "getitem r1 ''status'' = Inr (PStr ''success'')"
    by (simp add: get_weather_cases norm_spaced weather_london getitem_def)
  obtain w where w: "map_of WEATHER_DATA ''paris'' = Some w"
    using weather_paris by blast
  then obtain r2 where r2: "get_weather ''paris'' False = Inr r2"
    "getitem r2 ''status'' = Inr (PStr ''success'')"
    by (simp add: get_weather_cases norm_spaced getitem_def)
  have "either_error r1 r2 = Inr False"
    by (simp add: either_error_def r1 r2)
  then have "compare_cities db clock '' london '' ''paris'' ''weather'' = Inl KeyError"
    by (simp add: compare_cities_def compare_weather_def r1 r2 norm_spaced
        getitem_None [OF weather_spaced])
  moreover have "contains WEATHER_DATA (strip (lower '' london ''))"
    by (simp add: contains_def norm_spaced weather_london)
  moreover have "getitem WEATHER_DATA (lower '' london '') = Inl KeyError"
    by (simp add: norm_spaced getitem_None [OF weather_spaced])
  ultimately show ?thesis
    using r1 by blast
qed

section \<open>Current time\<close>

lemma formats_unknown:
  "format_type \<notin> set [''standard'', ''business'', ''iso'', ''relative'']
   \<Longrightarrow> get_default (formats n) format_type v = v"
  by (simp add: get_default_def formats_def)

lemma formats_standard:
  "getitem (formats n) ''standard'' = Inr [Strftime ''%A, %B %d, %Y at %I:%M:%S %p %Z'' n]"
  "get_default (formats n) ''standard'' v = [Strftime ''%A, %B %d, %Y at %I:%M:%S %p %Z'' n]"
  by (simp_all add: getitem_def get_default_def formats_def)

text \<open>
  Claim C10. When \<open>format_type\<close> is none of \<open>"standard"\<close>, \<open>"business"\<close>, \<open>"iso"\<close> and
  \<open>"relative"\<close>, \<open>get_current_time\<close> returns what it returns for \<open>"standard"\<close>; for a city
  of the catalog whose zone the time zone database knows this is the success result
  with the time in the standard format.
\<close>

theorem format_fallback:
  assumes "format_type \<notin> set [''standard'', ''business'', ''iso'', ''relative'']"
    and "map_of CITY_DATABASE (strip (lower city)) = Some city_info"
    and "db (timezone city_info) = Some zone"
  shows "get_current_time db t city format_type = get_current_time db t city ''standard''
    \<and> get_current_time db t city format_type =
        Inr [(''status'', PStr ''success''),
             (''report'', PText
                [Glyph 0x1F550, Lit '' Current time in '', Title city, Lit '': '',
                 Strftime ''%A, %B %d, %Y at %I:%M:%S %p %Z''
                   (Datetime t (timezone city_info) (zone t))]),
             (''timestamp'', PText [Isoformat (Datetime t (timezone city_info) (zone t))]),
             (''timezone'', PStr (timezone city_info)),
             (''utc_offset'', PText [Strftime ''%z'' (Datetime t (timezone city_info) (zone t))])]"
  using assms(2,3) formats_unknown [OF assms(1)]
  by (simp add: get_current_time_def current_time_body_def Let_def not_in_def getitem_Some
      ZoneInfo_def now_def formats_standard)

theorem format_fallback_witness:
  "''fancy'' \<notin> set [''standard'', ''business'', ''iso'', ''relative'']
   \<and> winter_offsets ''Europe/London'' = Some (\<lambda>t. 0)
   \<and> get_current_time winter_offsets 1700000000 '' London '' ''fancy''
       = get_current_time winter_offsets 1700000000 '' London '' ''standard''
   \<and> get_current_time winter_offsets 1700000000 '' London '' ''fancy'' =
        Inr [(''status'', PStr ''success''),
             (''report'', PText
                [Glyph 0x1F550, Lit '' Current time in '', Title '' London '', Lit '': '',
                 Strftime ''%A, %B %d, %Y at %I:%M:%S %p %Z''
                   (Datetime 1700000000 ''Europe/London'' 0)]),
             (''timestamp'', PText [Isoformat (Datetime 1700000000 ''Europe/London'' 0)]),
             (''timezone'', PStr ''Europe/London''),
             (''utc_offset'', PText [Strftime ''%z'' (Datetime 1700000000 ''Europe/London'' 0)])]"
proof -
  have a: "''fancy'' \<notin> set [''standard'', ''business'', ''iso'', ''relative'']"
    by simp
  have b: "map_of CITY_DATABASE (strip (lower '' London '')) =
     Some \<lparr>name = ''London'', country = ''United Kingdom'', timezone = ''Europe/London'',
           population = 9648110, coordinates = (51.5074, -0.1278), currency = ''GBP'',
           language = ''English''\<rparr>"
    by (simp add: norm_london city_london)
  have c: "winter_offsets (timezone \<lparr>name = ''London'', country = ''United Kingdom'',
           timezone = ''Europe/London'', population = 9648110,
           coordinates = (51.5074, -0.1278), currency = ''GBP'',
           language = ''English''\<rparr>) = Some (\<lambda>t. 0)"
    by (simp add: winter_offsets_def)
  have d: "winter_offsets ''Europe/London'' = Some (\<lambda>t. 0)"
    by (simp add: winter_offsets_def)
  note format_fallback [where db = winter_offsets and zone = "\<lambda>t. 0" and t = 1700000000
      and city = "'' London ''" and format_type = "''fancy''", OF a b c,
      unfolded CityInfo.select_convs]
  with a d show ?thesis
    by blast
qed

text \<open>The fallback itself needs nothing of the city or of the database.\<close>

lemma unknown_format_is_standard:
  assumes "format_type \<notin> set [''standard'', ''business'', ''iso'', ''relative'']"
  shows "get_current_time db t city format_type = get_current_time db t city ''standard''"
  using formats_unknown [OF assms]
  by (simp add: get_current_time_def current_time_body_def Let_def formats_standard)

section \<open>Sine and cosine at rational points\<close>

lemma sin_coeff_values:
  "sin_coeff 0 = 0" "sin_coeff 1 = 1" "sin_coeff (Suc 0) = 1" "sin_coeff 2 = 0"
  "sin_coeff 3 = - 1 / 6" "sin_coeff 4 = 0" "sin_coeff 5 = 1 / 120" "sin_coeff 6 = 0"
  "sin_coeff 7 = - 1 / 5040" "sin_coeff 8 = 0" "sin_coeff 9 = 1 / 362880" "sin_coeff 10 = 0"
  by (simp_all add: sin_coeff_def fact_numeral)

lemma sin_taylor3: "\<bar>sin x - x\<bar> \<le> \<bar>x\<bar> ^ 3 / 6" for x :: real
proof -
  have "{..<3::nat} = {0, 1, 2}" by auto
  then have "(\<Sum>m<3. sin_coeff m * x ^ m) = x"
    by (simp add: sin_coeff_values)
  with Maclaurin_sin_bound [of x 3] show ?thesis
    by (simp add: inverse_eq_divide fact_numeral)
qed

lemma sin_taylor7: "\<bar>sin x - (x - x ^ 3 / 6 + x ^ 5 / 120)\<bar> \<le> \<bar>x\<bar> ^ 7 / 5040" for x :: real
proof -
  have "{..<7::nat} = {0, 1, 2, 3, 4, 5, 6}" by auto
  then have "(\<Sum>m<7. sin_coeff m * x ^ m) = x - x ^ 3 / 6 + x ^ 5 / 120"
    by (simp add: sin_coeff_values)
  with Maclaurin_sin_bound [of x 7] show ?thesis
    by (simp add: inverse_eq_divide fact_numeral)
qed

lemma sin_taylor11:
  "\<bar>sin x - (x - x ^ 3 / 6 + x ^ 5 / 120 - x ^ 7 / 5040 + x ^ 9 / 362880)\<bar>
     \<le> \<bar>x\<bar> ^ 11 / 39916800"
  for x :: real
proof -
  have "{..<11::nat} = {0, 1, 2, 3, 4, 5, 6, 7, 8, 9, 10}" by auto arith
  then have "(\<Sum>m<11. sin_coeff m * x ^ m)
      = x - x ^ 3 / 6 + x ^ 5 / 120 - x ^ 7 / 5040 + x ^ 9 / 362880"
    by (simp add: sin_coeff_values)
  with Maclaurin_sin_bound [of x 11] show ?thesis
    by (simp add: inverse_eq_divide fact_numeral)
qed

lemma sin_taylor_lower3:
  fixes x :: real
  assumes "0 \<le> x"
  shows "x - x ^ 3 / 6 \<le> sin x"
  using sin_taylor3 [of x] abs_of_nonneg [OF assms] by linarith

lemma sin_taylor_lower7:
  fixes x :: real
  assumes "0 \<le> x"
  shows "x - x ^ 3 / 6 + x ^ 5 / 120 - x ^ 7 / 5040 \<le> sin x"
  using sin_taylor7 [of x] abs_of_nonneg [OF assms] by linarith

lemma sin_taylor_upper7:
  fixes x :: real
  assumes "0 \<le> x"
  shows "sin x \<le> x - x ^ 3 / 6 + x ^ 5 / 120 + x ^ 7 / 5040"
  using sin_taylor7 [of x] abs_of_nonneg [OF assms] by linarith

lemma sin_taylor_lower11:
  fixes x :: real
  assumes "0 \<le> x"
  shows "x - x ^ 3 / 6 + x ^ 5 / 120 - x ^ 7 / 5040 + x ^ 9 / 362880 - x ^ 11 / 39916800
    \<le> sin x"
  using sin_taylor11 [of x] abs_of_nonneg [OF assms] by linarith

lemma sin_taylor_upper11:
  fixes x :: real
  assumes "0 \<le> x"
  shows "sin x
    \<le> x - x ^ 3 / 6 + x ^ 5 / 120 - x ^ 7 / 5040 + x ^ 9 / 362880 + x ^ 11 / 39916800"
  using sin_taylor11 [of x] abs_of_nonneg [OF assms] by linarith

lemma cos_half: "cos x = 1 - 2 * (sin (x / 2))\<^sup>2" for x :: real
  using cos_double_sin [of "x / 2"] by simp

lemma sin_half_squared: "(sin (x / 2))\<^sup>2 = (1 - cos x) / 2" for x :: real
  using cos_half [of x] by simp

text \<open>Two decimal places more of \<open>\<pi>\<close> than the library states.\<close>

lemma cos_15708_neg: "cos (1.5708 :: real) < 0"
proof -
  have "(0.707108 :: real) \<le> 0.7854 - 0.7854 ^ 3 / 6 + 0.7854 ^ 5 / 120 - 0.7854 ^ 7 / 5040
      + 0.7854 ^ 9 / 362880 - 0.7854 ^ 11 / 39916800"
    by (simp add: power_divide)
  moreover have "(0::real) \<le> 0.7854" by simp
  note sin_taylor_lower11 [OF this]
  ultimately have lo: "(0.707108 :: real) \<le> sin 0.7854"
    by linarith
  have "(0.707108 :: real)\<^sup>2 \<le> (sin 0.7854)\<^sup>2"
    using lo by (intro power_mono) simp_all
  moreover have "(1 / 2 :: real) < 0.707108\<^sup>2"
    by (simp add: power2_eq_square)
  ultimately show ?thesis
    using cos_half [of "1.5708"] by simp
qed

lemma cos_157075_pos: "0 < cos (1.57075 :: real)"
proof -
  have "0.785375 - 0.785375 ^ 3 / 6 + 0.785375 ^ 5 / 120 - 0.785375 ^ 7 / 5040
      + 0.785375 ^ 9 / 362880 + 0.785375 ^ 11 / 39916800 \<le> (0.707091 :: real)"
    by (simp add: power_divide)
  moreover have "(0::real) \<le> 0.785375" by simp
  note sin_taylor_upper11 [OF this]
  ultimately have hi: "sin (0.785375 :: real) \<le> 0.707091"
    by linarith
  have lo: "0 \<le> sin (0.785375 :: real)"
    by (intro sin_ge_zero) (use pi_ge_two in simp_all)
  have "(sin (0.785375 :: real))\<^sup>2 \<le> 0.707091\<^sup>2"
    using hi lo by (intro power_mono) simp_all
  moreover have "(0.707091 :: real)\<^sup>2 < 1 / 2"
    by (simp add: power2_eq_square)
  ultimately show ?thesis
    using cos_half [of "1.57075"] by simp
qed

lemma pi_upper: "pi < 3.1416"
proof (rule ccontr)
  assume "\<not> pi < 3.1416"
  then have "(1.5708 :: real) \<le> pi / 2" by simp
  then have "0 \<le> cos (1.5708 :: real)"
    by (intro cos_ge_zero) simp_all
  with cos_15708_neg show False by simp
qed

lemma pi_lower: "3.1415 < pi"
proof (rule ccontr)
  assume "\<not> 3.1415 < pi"
  then have h: "pi / 2 \<le> 1.57075" by simp
  have "(1.57075 :: real) \<le> pi" using pi_ge_two by simp
  with h have "cos (1.57075 :: real) \<le> cos (pi / 2)"
    by (intro cos_monotone_0_pi_le) simp_all
  with cos_157075_pos show False by simp
qed

lemma sin_mono_unit:
  fixes x y :: real
  assumes "0 \<le> x" "x \<le> y" "y \<le> 1"
  shows "sin x \<le> sin y"
proof (rule sin_monotone_2pi_le)
  show "- (pi / 2) \<le> x" using assms(1) pi_ge_two by linarith
  show "x \<le> y" by fact
  show "y \<le> pi / 2" using assms(3) pi_ge_two by linarith
qed

lemma sin_between:
  fixes x lo hi :: real
  assumes "0 \<le> lo" "lo \<le> x" "x \<le> hi" "hi \<le> 1"
  shows "lo - lo ^ 3 / 6 \<le> sin x \<and> sin x \<le> hi"
proof -
  have "sin lo \<le> sin x"
    using assms by (intro sin_mono_unit) simp_all
  moreover have "lo - lo ^ 3 / 6 \<le> sin lo"
    using assms(1) by (rule sin_taylor_lower3)
  moreover have "sin x \<le> x"
    using assms(1,2) by (intro sin_x_le_x) linarith
  ultimately show ?thesis
    using assms(3) by linarith
qed

lemma cos_between:
  fixes x lo hi slo shi :: real
  assumes "0 \<le> lo" "lo \<le> x / 2" "x / 2 \<le> hi" "hi \<le> 1"
    and "0 \<le> slo" "slo \<le> lo - lo ^ 3 / 6 + lo ^ 5 / 120 - lo ^ 7 / 5040"
    and "hi - hi ^ 3 / 6 + hi ^ 5 / 120 + hi ^ 7 / 5040 \<le> shi"
  shows "1 - 2 * shi\<^sup>2 \<le> cos x \<and> cos x \<le> 1 - 2 * slo\<^sup>2"
proof -
  have "sin lo \<le> sin (x / 2)"
    using assms by (intro sin_mono_unit) simp_all
  moreover have "lo - lo ^ 3 / 6 + lo ^ 5 / 120 - lo ^ 7 / 5040 \<le> sin lo"
    using assms(1) by (rule sin_taylor_lower7)
  ultimately have lower: "slo \<le> sin (x / 2)"
    using assms(6) by linarith
  have "sin (x / 2) \<le> sin hi"
    using assms by (intro sin_mono_unit) simp_all
  moreover have "sin hi \<le> hi - hi ^ 3 / 6 + hi ^ 5 / 120 + hi ^ 7 / 5040"
    using assms(1,2,3) by (intro sin_taylor_upper7) linarith
  ultimately have upper: "sin (x / 2) \<le> shi"
    using assms(7) by linarith
  have "slo\<^sup>2 \<le> (sin (x / 2))\<^sup>2"
    using lower assms(5) by (intro power_mono) simp_all
  moreover have "(sin (x / 2))\<^sup>2 \<le> shi\<^sup>2"
    using upper lower assms(5) by (intro power_mono) simp_all
  ultimately show ?thesis
    unfolding cos_half [of x] by linarith
qed

section \<open>The haversine value\<close>

lemma convex_unit:
  fixes s t p :: real
  assumes "0 \<le> s" "s \<le> 1" "0 \<le> s + p" "s + p \<le> 1" "0 \<le> t" "t \<le> 1"
  shows "0 \<le> s + p * t \<and> s + p * t \<le> 1"
proof -
  have eq: "s + p * t = (1 - t) * s + t * (s + p)"
    by (simp add: algebra_simps)
  have "0 \<le> (1 - t) * s" "0 \<le> t * (s + p)"
    using assms by simp_all
  moreover have "(1 - t) * s \<le> (1 - t) * 1"
    using assms by (intro mult_left_mono) simp_all
  then have "(1 - t) * s \<le> 1 - t"
    by simp
  moreover have "t * (s + p) \<le> t * 1"
    using assms by (intro mult_left_mono) simp_all
  then have "t * (s + p) \<le> t"
    by simp
  ultimately show ?thesis
    unfolding eq by linarith
qed

text \<open>
  The value is linear in \<open>sin\<^sup>2(dlon/2)\<close>, which lies in \<open>[0, 1]\<close>; at 0 it is
  \<open>(1 - cos (lat2 - lat1)) / 2\<close> and at 1 it is \<open>(1 + cos (lat1 + lat2)) / 2\<close>.
\<close>

lemma haversine_unit:
  fixes lat1 lat2 dlon :: real
  shows "0 \<le> (sin ((lat2 - lat1) / 2))\<^sup>2 + cos lat1 * cos lat2 * (sin (dlon / 2))\<^sup>2
       \<and> (sin ((lat2 - lat1) / 2))\<^sup>2 + cos lat1 * cos lat2 * (sin (dlon / 2))\<^sup>2 \<le> 1"
proof (rule convex_unit)
  show "0 \<le> (sin ((lat2 - lat1) / 2))\<^sup>2" "0 \<le> (sin (dlon / 2))\<^sup>2"
    by simp_all
  show "(sin ((lat2 - lat1) / 2))\<^sup>2 \<le> 1" "(sin (dlon / 2))\<^sup>2 \<le> 1"
    by (simp_all add: abs_square_le_1)
  define k where "k = cos (lat1 + lat2)"
  have sum: "(sin ((lat2 - lat1) / 2))\<^sup>2 + cos lat1 * cos lat2 = (1 + k) / 2"
    by (simp add: k_def sin_half_squared cos_diff cos_add field_simps)
  have k: "- 1 \<le> k" "k \<le> 1"
    by (simp_all add: k_def)
  show "0 \<le> (sin ((lat2 - lat1) / 2))\<^sup>2 + cos lat1 * cos lat2"
    unfolding sum using k by simp
  show "(sin ((lat2 - lat1) / 2))\<^sup>2 + cos lat1 * cos lat2 \<le> 1"
    unfolding sum using k by simp
qed

lemma haversine_a_range: "0 \<le> haversine_a p q \<and> haversine_a p q \<le> 1"
  using haversine_unit [of "radians (fst q)" "radians (fst p)" "radians (snd q) - radians (snd p)"]
  by (simp add: haversine_a_def Let_def)

lemma central_angle_cases:
  "central_angle a = (if a < 0 \<or> 1 < a then Inl ValueError else Inr (2 * arcsin (sqrt a)))"
proof -
  have "\<not> sqrt a < - 1" if "0 \<le> a"
    using real_sqrt_ge_zero [OF that] by linarith
  then show ?thesis
    by (auto simp: central_angle_def math_sqrt_def math_asin_def)
qed

lemma distance_km_value:
  "distance_km p q = Inr (6371 * (2 * arcsin (sqrt (haversine_a p q))))"
  using haversine_a_range [of p q]
  by (simp add: distance_km_def central_angle_cases)

lemma haversine_a_sym: "haversine_a p q = haversine_a q p"
proof -
  have flip: "sin ((y - x) / 2) = - sin ((x - y) / 2)" for x y :: real
    by (metis minus_diff_eq minus_divide_left sin_minus)
  show ?thesis
    by (simp add: haversine_a_def Let_def mult.commute
        flip [of "radians (fst p)" "radians (fst q)"]
        flip [of "radians (snd p)" "radians (snd q)"])
qed

text \<open>
  Claim C5. The great-circle distance is symmetric: the distance computation gives the
  same number of kilometers for \<open>(a, b)\<close> and for \<open>(b, a)\<close>, exactly.
\<close>

theorem distance_symmetric: "distance_km p q = distance_km q p"
  by (simp add: distance_km_value haversine_a_sym [of p q])

section \<open>London and Paris\<close>

lemma cos_london: "0.6222 \<le> cos (51.5074 * (pi / 180)) \<and> cos (51.5074 * (pi / 180)) \<le> 0.6226"
proof -
  have "1 - 2 * (0.43451 :: real)\<^sup>2 \<le> cos (51.5074 * (pi / 180))
      \<and> cos (51.5074 * (pi / 180)) \<le> 1 - 2 * (0.43448 :: real)\<^sup>2"
  proof (rule cos_between [where lo = "0.44947" and hi = "0.44949"])
    show "(0.44947 :: real) \<le> 51.5074 * (pi / 180) / 2"
      using pi_lower by simp
    show "51.5074 * (pi / 180) / 2 \<le> (0.44949 :: real)"
      using pi_upper by simp
    show "(0.43448 :: real) \<le> 0.44947 - 0.44947 ^ 3 / 6 + 0.44947 ^ 5 / 120 - 0.44947 ^ 7 / 5040"
      by (simp add: power_divide)
    show "0.44949 - 0.44949 ^ 3 / 6 + 0.44949 ^ 5 / 120 + 0.44949 ^ 7 / 5040 \<le> (0.43451 :: real)"
      by (simp add: power_divide)
  qed simp_all
  moreover have "(0.6222 :: real) \<le> 1 - 2 * 0.43451\<^sup>2" "1 - 2 * 0.43448\<^sup>2 \<le> (0.6226 :: real)"
    by (simp_all add: power2_eq_square)
  ultimately show ?thesis
    by linarith
qed

lemma cos_paris: "0.6577 \<le> cos (48.8566 * (pi / 180)) \<and> cos (48.8566 * (pi / 180)) \<le> 0.6582"
proof -
  have "1 - 2 * (0.41357 :: real)\<^sup>2 \<le> cos (48.8566 * (pi / 180))
      \<and> cos (48.8566 * (pi / 180)) \<le> 1 - 2 * (0.41354 :: real)\<^sup>2"
  proof (rule cos_between [where lo = "0.42634" and hi = "0.42636"])
    show "(0.42634 :: real) \<le> 48.8566 * (pi / 180) / 2"
      using pi_lower by simp
    show "48.8566 * (pi / 180) / 2 \<le> (0.42636 :: real)"
      using pi_upper by simp
    show "(0.41354 :: real) \<le> 0.42634 - 0.42634 ^ 3 / 6 + 0.42634 ^ 5 / 120 - 0.42634 ^ 7 / 5040"
      by (simp add: power_divide)
    show "0.42636 - 0.42636 ^ 3 / 6 + 0.42636 ^ 5 / 120 + 0.42636 ^ 7 / 5040 \<le> (0.41357 :: real)"
      by (simp add: power_divide)
  qed simp_all
  moreover have "(0.6577 :: real) \<le> 1 - 2 * 0.41357\<^sup>2" "1 - 2 * 0.41354\<^sup>2 \<le> (0.6582 :: real)"
    by (simp_all add: power2_eq_square)
  ultimately show ?thesis
    by linarith
qed

lemma sin_dlat: "0.02312 \<le> sin (1.3254 * (pi / 180)) \<and> sin (1.3254 * (pi / 180)) \<le> 0.02314"
proof -
  have "(0.02313 :: real) - 0.02313 ^ 3 / 6 \<le> sin (1.3254 * (pi / 180))
      \<and> sin (1.3254 * (pi / 180)) \<le> (0.02314 :: real)"
  proof (rule sin_between)
    show "(0.02313 :: real) \<le> 1.3254 * (pi / 180)"
      using pi_lower by simp
    show "1.3254 * (pi / 180) \<le> (0.02314 :: real)"
      using pi_upper by simp
  qed simp_all
  moreover have "(0.02312 :: real) \<le> 0.02313 - 0.02313 ^ 3 / 6"
    by (simp add: power_divide)
  ultimately show ?thesis
    by linarith
qed

lemma sin_dlon: "0.02163 \<le> sin (1.24 * (pi / 180)) \<and> sin (1.24 * (pi / 180)) \<le> 0.02165"
proof -
  have "(0.02164 :: real) - 0.02164 ^ 3 / 6 \<le> sin (1.24 * (pi / 180))
      \<and> sin (1.24 * (pi / 180)) \<le> (0.02165 :: real)"
  proof (rule sin_between)
    show "(0.02164 :: real) \<le> 1.24 * (pi / 180)"
      using pi_lower by simp
    show "1.24 * (pi / 180) \<le> (0.02165 :: real)"
      using pi_upper by simp
  qed simp_all
  moreover have "(0.02163 :: real) \<le> 0.02164 - 0.02164 ^ 3 / 6"
    by (simp add: power_divide)
  ultimately show ?thesis
    by linarith
qed

lemma haversine_a_london_paris:
  "haversine_a (51.5074, -0.1278) (48.8566, 2.3522) =
     (sin (1.3254 * (pi / 180)))\<^sup>2
     + cos (51.5074 * (pi / 180)) * cos (48.8566 * (pi / 180)) * (sin (1.24 * (pi / 180)))\<^sup>2"
proof -
  have dlat: "(48.8566 * (pi / 180) - 51.5074 * (pi / 180)) / 2 = - (1.3254 * (pi / 180))"
    by simp
  have dlon: "(2.3522 * (pi / 180) - (- 0.1278) * (pi / 180)) / 2 = 1.24 * (pi / 180)"
    by simp
  show ?thesis
    unfolding haversine_a_def radians_def Let_def fst_conv snd_conv dlat dlon
    by simp
qed

lemma haversine_a_london_paris_bounds:
  "0.00072599 \<le> haversine_a (51.5074, -0.1278) (48.8566, 2.3522)
   \<and> haversine_a (51.5074, -0.1278) (48.8566, 2.3522) \<le> 0.00072755"
proof -
  define s where "s = sin (1.3254 * (pi / 180))"
  define t where "t = sin (1.24 * (pi / 180))"
  define c1 where "c1 = cos (51.5074 * (pi / 180))"
  define c2 where "c2 = cos (48.8566 * (pi / 180))"
  have s: "0.02312 \<le> s" "s \<le> 0.02314"
    using sin_dlat by (simp_all add: s_def)
  have t: "0.02163 \<le> t" "t \<le> 0.02165"
    using sin_dlon by (simp_all add: t_def)
  have c1: "0.6222 \<le> c1" "c1 \<le> 0.6226"
    using cos_london by (simp_all add: c1_def)
  have c2: "0.6577 \<le> c2" "c2 \<le> 0.6582"
    using cos_paris by (simp_all add: c2_def)
  have s2: "0.02312\<^sup>2 \<le> s\<^sup>2" "s\<^sup>2 \<le> 0.02314\<^sup>2"
    by (rule power_mono; use s in linarith)+
  have t2: "0.02163\<^sup>2 \<le> t\<^sup>2" "t\<^sup>2 \<le> 0.02165\<^sup>2"
    by (rule power_mono; use t in linarith)+
  have cc: "0.6222 * 0.6577 \<le> c1 * c2" "c1 * c2 \<le> 0.6226 * 0.6582"
    by (rule mult_mono; use c1 c2 in linarith)+
  have cc0: "0 \<le> c1 * c2"
    by (rule mult_nonneg_nonneg; use c1 c2 in linarith)
  have lo: "0.6222 * 0.6577 * 0.02163\<^sup>2 \<le> c1 * c2 * t\<^sup>2"
    by (rule mult_mono; use cc t2 cc0 in simp)
  have hi: "c1 * c2 * t\<^sup>2 \<le> 0.6226 * 0.6582 * 0.02165\<^sup>2"
    by (rule mult_mono; use cc t2 cc0 in simp)
  have "(0.00072599 :: real) \<le> 0.02312\<^sup>2 + 0.6222 * 0.6577 * 0.02163\<^sup>2"
    by (simp add: power2_eq_square)
  moreover have "0.02314\<^sup>2 + 0.6226 * 0.6582 * 0.02165\<^sup>2 \<le> (0.00072755 :: real)"
    by (simp add: power2_eq_square)
  ultimately have "0.00072599 \<le> s\<^sup>2 + c1 * c2 * t\<^sup>2 \<and> s\<^sup>2 + c1 * c2 * t\<^sup>2 \<le> 0.00072755"
    using s2 lo hi by linarith
  then show ?thesis
    unfolding haversine_a_london_paris s_def t_def c1_def c2_def .
qed

lemma arcsin_sqrt_between:
  fixes a lo hi :: real
  assumes "0 \<le> lo" "lo \<le> hi" "hi \<le> 1" "lo\<^sup>2 \<le> a" "a \<le> (hi - hi ^ 3 / 6)\<^sup>2"
    and "0 \<le> hi - hi ^ 3 / 6"
  shows "lo \<le> arcsin (sqrt a) \<and> arcsin (sqrt a) \<le> hi"
proof -
  have half: "1 \<le> pi / 2"
    using pi_ge_two by simp
  have "sin lo \<le> lo"
    using assms(1) by (rule sin_x_le_x)
  moreover have sin_lo: "0 \<le> sin lo"
    using assms(1,2,3) pi_ge_two by (intro sin_ge_zero) linarith+
  ultimately have "(sin lo)\<^sup>2 \<le> lo\<^sup>2"
    by (intro power_mono)
  then have "(sin lo)\<^sup>2 \<le> a"
    using assms(4) by linarith
  then have lower: "sin lo \<le> sqrt a"
    by (rule real_le_rsqrt)
  have "hi - hi ^ 3 / 6 \<le> sin hi"
    using assms(1,2) by (intro sin_taylor_lower3) linarith
  then have "(hi - hi ^ 3 / 6)\<^sup>2 \<le> (sin hi)\<^sup>2"
    using assms(6) by (intro power_mono)
  then have "a \<le> (sin hi)\<^sup>2"
    using assms(5) by linarith
  moreover have "0 \<le> sin hi"
    using assms(1,2,3) pi_ge_two by (intro sin_ge_zero) linarith+
  ultimately have upper: "sqrt a \<le> sin hi"
    by (intro real_le_lsqrt)
  have "arcsin (sin lo) \<le> arcsin (sqrt a)"
    using lower upper sin_ge_minus_one [of lo] sin_le_one [of hi]
    by (intro arcsin_le_arcsin) linarith+
  moreover have "arcsin (sqrt a) \<le> arcsin (sin hi)"
    using lower upper sin_lo sin_le_one [of hi]
    by (intro arcsin_le_arcsin) linarith+
  moreover have "arcsin (sin lo) = lo"
    using assms(1,2,3) half by (intro arcsin_sin) linarith+
  moreover have "arcsin (sin hi) = hi"
    using assms(1,2,3) half by (intro arcsin_sin) linarith+
  ultimately show ?thesis
    by simp
qed

lemma london_paris_angle:
  "343 / 12742 \<le> arcsin (sqrt (haversine_a (51.5074, -0.1278) (48.8566, 2.3522)))
   \<and> arcsin (sqrt (haversine_a (51.5074, -0.1278) (48.8566, 2.3522))) \<le> 344 / 12742"
proof (rule arcsin_sqrt_between)
  show "(343 / 12742 :: real)\<^sup>2 \<le> haversine_a (51.5074, -0.1278) (48.8566, 2.3522)"
  proof -
    have "(343 / 12742 :: real)\<^sup>2 \<le> 0.00072599"
      by (simp add: power2_eq_square)
    then show ?thesis
      using haversine_a_london_paris_bounds by linarith
  qed
  show "haversine_a (51.5074, -0.1278) (48.8566, 2.3522)
      \<le> (344 / 12742 - (344 / 12742) ^ 3 / 6 :: real)\<^sup>2"
  proof -
    have "(0.00072755 :: real) \<le> (344 / 12742 - (344 / 12742) ^ 3 / 6)\<^sup>2"
      by (simp add: power2_eq_square power_divide)
    then show ?thesis
      using haversine_a_london_paris_bounds by linarith
  qed
  show "(0 :: real) \<le> 344 / 12742 - (344 / 12742) ^ 3 / 6"
    by (simp add: power_divide)
qed simp_all

lemma distance_km_is_spec:
  "distance_km (lat1, lon1) (lat2, lon2) = Inr (spec_great_circle_km lat1 lon1 lat2 lon2)"
  by (simp add: distance_km_value haversine_a_def spec_great_circle_km_def radians_def Let_def)

text \<open>
  Claim C4. The distance computation of lines 442 to 450 is the haversine formula with
  the radius 6371: on every two pairs of degrees it returns the number that the formula
  of the specification gives. For the coordinates that the catalog holds for London,
  (51.5074, -0.1278), and for Paris, (48.8566, 2.3522), this number lies between 343
  and 344 kilometers.
\<close>

theorem distance_is_haversine:
  "distance_km (lat1, lon1) (lat2, lon2) = Inr (spec_great_circle_km lat1 lon1 lat2 lon2)
   \<and> (\<exists>london paris d.
        getitem CITY_DATABASE ''london'' = Inr london
        \<and> coordinates london = (51.5074, -0.1278)
        \<and> getitem CITY_DATABASE ''paris'' = Inr paris
        \<and> coordinates paris = (48.8566, 2.3522)
        \<and> distance_km (coordinates london) (coordinates paris) = Inr d
        \<and> d = spec_great_circle_km 51.5074 (-0.1278) 48.8566 2.3522
        \<and> 343 \<le> d \<and> d \<le> 344)"
proof -
  define d where "d = 6371 * (2 * arcsin (sqrt (haversine_a (51.5074, -0.1278) (48.8566, 2.3522))))"
  have "343 \<le> d \<and> d \<le> 344"
    using london_paris_angle by (simp add: d_def)
  moreover have "distance_km (51.5074, -0.1278) (48.8566, 2.3522) = Inr d"
    by (simp add: d_def distance_km_value)
  moreover from this have "d = spec_great_circle_km 51.5074 (-0.1278) 48.8566 2.3522"
    using distance_km_is_spec [of "51.5074" "-0.1278" "48.8566" "2.3522"] by simp
  ultimately have "\<exists>london paris d.
        getitem CITY_DATABASE ''london'' = Inr london
        \<and> coordinates london = (51.5074, -0.1278)
        \<and> getitem CITY_DATABASE ''paris'' = Inr paris
        \<and> coordinates paris = (48.8566, 2.3522)
        \<and> distance_km (coordinates london) (coordinates paris) = Inr d
        \<and> d = spec_great_circle_km 51.5074 (-0.1278) 48.8566 2.3522
        \<and> 343 \<le> d \<and> d \<le> 344"
    by (simp add: getitem_def city_london city_paris)
  then show ?thesis
    using distance_km_is_spec [of lat1 lon1 lat2 lon2] by blast
qed

section \<open>Travel information\<close>

lemma dest_unbound:
  "load_name (travel_frame origin destination origin_lower dest_lower) ''dest'' = Inl NameError"
  by (simp add: load_name_def travel_frame_def module_names_def builtin_names_def)

lemma origin_bound:
  "load_name (travel_frame origin destination origin_lower dest_lower) ''origin''
     = Inr (PStr origin)"
  by (simp add: load_name_def travel_frame_def)

lemma travel_report_NameError:
  "travel_report (travel_frame origin destination origin_lower dest_lower)
     origin_info dest_info distance time_diff = Inl NameError"
  by (simp add: travel_report_def origin_bound dest_unbound title_def)

text \<open>Lines 453 to 458 compute the offset of the destination minus that of the origin,
  in hours, when both zones are known.\<close>

lemma time_difference_cases:
  "time_difference db clock origin_info dest_info =
     (case db (timezone origin_info) of
        None \<Rightarrow> Inl ZoneInfoNotFoundError
      | Some origin_zone \<Rightarrow>
          (case db (timezone dest_info) of
             None \<Rightarrow> Inl ZoneInfoNotFoundError
           | Some dest_zone \<Rightarrow>
               Inr (real_of_int (dest_zone (clock 1) - origin_zone (clock 0)) / 3600)))"
  by (simp add: time_difference_def ZoneInfo_def now_def Let_def split: option.splits)

lemma get_travel_info_found:
  assumes "map_of CITY_DATABASE (strip (lower origin)) = Some origin_info"
    and "map_of CITY_DATABASE (strip (lower destination)) = Some dest_info"
  shows "get_travel_info db clock origin destination =
     (if db (timezone origin_info) = None \<or> db (timezone dest_info) = None
      then Inl ZoneInfoNotFoundError else Inl NameError)"
  using assms
  by (auto simp: get_travel_info_def Let_def not_in_def getitem_Some distance_km_value
      time_difference_cases travel_report_NameError split: option.splits)

text \<open>
  Claim C3 does not hold of the code. \<open>get_current_time\<close> turns an unknown zone into an
  error dictionary, but \<open>get_travel_info\<close> calls \<open>ZoneInfo\<close> outside any \<open>try\<close>, and its
  report reads the name \<open>dest\<close>, which nothing binds. On London and Paris it ends by
  \<open>ZoneInfoNotFoundError\<close> when the database lacks one of the two zones and by
  \<open>NameError\<close> otherwise: in no case does it return.
\<close>

theorem travel_info_uncaught:
  "get_travel_info db clock ''london'' ''paris'' =
     (if db ''Europe/London'' = None \<or> db ''Europe/Paris'' = None
      then Inl ZoneInfoNotFoundError else Inl NameError)"
  using get_travel_info_found [of "''london''" _ "''paris''" _ db clock]
  by (simp add: norm_london norm_more city_london city_paris)

text \<open>
  Claim C6 does not hold of the code. From London to Tokyo, with both zones known, line
  458 computes the difference of nine hours, but the call then ends by \<open>NameError\<close> at
  line 461: the difference is not returned, and the word \<open>ahead\<close> or \<open>behind\<close> of line
  464 is never evaluated.
\<close>

theorem travel_info_no_offset_result:
  "(\<exists>origin_info dest_info.
      getitem CITY_DATABASE ''london'' = Inr origin_info
      \<and> getitem CITY_DATABASE ''tokyo'' = Inr dest_info
      \<and> time_difference winter_offsets clock origin_info dest_info = Inr 9)
   \<and> get_travel_info winter_offsets clock ''london'' ''tokyo'' = Inl NameError"
proof -
  have "get_travel_info winter_offsets clock ''london'' ''tokyo'' = Inl NameError"
    using get_travel_info_found [of "''london''" _ "''tokyo''" _ winter_offsets clock]
    by (simp add: norm_london norm_more city_london city_tokyo winter_offsets_def)
  then show ?thesis
    by (simp add: getitem_def city_london city_tokyo time_difference_cases winter_offsets_def)
qed

text \<open>
  Claim C7 does not hold of the code. The kilometers and the miles are fields of the
  report of lines 460 to 467, and building this report raises \<open>NameError\<close> whatever the
  distance is. So a call of \<open>get_travel_info\<close> returns the error dictionary for a city
  that the catalog lacks, or it raises: no call returns a distance.
\<close>

theorem travel_info_never_succeeds:
  "travel_report (travel_frame origin destination (strip (lower origin))
       (strip (lower destination))) origin_info dest_info distance time_diff = Inl NameError
   \<and> (get_travel_info db clock origin destination = Inr travel_not_found
      \<or> get_travel_info db clock origin destination = Inl ZoneInfoNotFoundError
      \<or> get_travel_info db clock origin destination = Inl NameError)"
proof -
  have "get_travel_info db clock origin destination = Inr travel_not_found
      \<or> get_travel_info db clock origin destination = Inl ZoneInfoNotFoundError
      \<or> get_travel_info db clock origin destination = Inl NameError"
  proof (cases "map_of CITY_DATABASE (strip (lower origin))")
    case None
    then show ?thesis
      by (simp add: get_travel_info_def Let_def not_in_def)
  next
    case origin: (Some origin_info)
    show ?thesis
    proof (cases "map_of CITY_DATABASE (strip (lower destination))")
      case None
      then show ?thesis
        by (simp add: get_travel_info_def Let_def not_in_def)
    next
      case (Some dest_info)
      with origin show ?thesis
        by (simp add: get_travel_info_found)
    qed
  qed
  then show ?thesis
    by (simp add: travel_report_NameError)
qed

end
